theory Spec2Isabelle
  imports Main
begin

section \<open>Strings\<close>

text \<open>
  Python's \<open>str\<close> is modelled by \<open>string\<close>; a character stands for the code point of
  the same number, so the model covers the code points below 256. \<open>isspace\<close> is Python's
  \<open>str.isspace\<close> on these code points: tab, line feed, vertical tab, form feed, carriage
  return, the four separators 28 to 31, space, NEL (133) and the no-break space (160).
\<close>

definition isspace :: "char \<Rightarrow> bool" where
  "isspace c =
     (let n = (of_char c :: nat)
      in (9 \<le> n \<and> n \<le> 13) \<or> (28 \<le> n \<and> n \<le> 32) \<or> n = 133 \<or> n = 160)"

text \<open>\<open>s.strip()\<close>: leading and trailing whitespace removed.\<close>

definition strip :: "string \<Rightarrow> string" where
  "strip s = rev (dropWhile isspace (rev (dropWhile isspace s)))"

text \<open>\<open>sep.join(xs)\<close>.\<close>

fun join :: "string \<Rightarrow> string list \<Rightarrow> string" where
  "join sep [] = []"
| "join sep [x] = x"
| "join sep (x # y # ys) = x @ sep @ join sep (y # ys)"

text \<open>Truthiness of a value that is \<open>None\<close> or a \<open>str\<close>: false for \<open>None\<close> and for \<open>""\<close>.\<close>

fun truthy :: "string option \<Rightarrow> bool" where
  "truthy None = False"
| "truthy (Some s) = (s \<noteq> [])"

section \<open>The plugin\<close>

text \<open>
  \<open>DestinationsPlugin\<close> has two methods decorated with \<open>kernel_function\<close>. Each returns a
  triple-quoted literal: a line feed, five lines indented by eight spaces, and a last line
  of eight spaces.
\<close>

definition get_destinations :: string where
  "get_destinations =
     ''\<newline>        Barcelona, Spain\<newline>        Paris, France\<newline>        Berlin, Germany\<newline>        Tokyo, Japan\<newline>        New York, USA\<newline>        ''"

definition get_availability :: "string \<Rightarrow> string" where
  "get_availability destination =
     ''\<newline>        Barcelona - Unavailable\<newline>        Paris - Available\<newline>        Berlin - Available\<newline>        Tokyo - Unavailable\<newline>        New York - Available\<newline>        ''"

record kernel_function =
  kf_name :: string
  kf_description :: string
  kf_parameters :: "string list"

definition DestinationsPlugin :: "kernel_function list" where
  "DestinationsPlugin =
     [\<lparr>kf_name = ''get_destinations'',
       kf_description = ''Provides a list of vacation destinations.'',
       kf_parameters = []\<rparr>,
      \<lparr>kf_name = ''get_availability'',
       kf_description = ''Provides the availability of a destination.'',
       kf_parameters = [''destination'']\<rparr>]"

text \<open>
  Reading aids for the returned listings: the text is cut at line feeds, each line is
  stripped and the blank ones are dropped. The city of a destination line is the text
  before its comma, the city of an availability line the text before its hyphen.
\<close>

fun split_on :: "char \<Rightarrow> string \<Rightarrow> string list" where
  "split_on d [] = [[]]"
| "split_on d (c # cs) =
     (if c = d then [] # split_on d cs
      else (case split_on d cs of [] \<Rightarrow> [[c]] | l # ls \<Rightarrow> (c # l) # ls))"

definition entries :: "string \<Rightarrow> string list" where
  "entries s = filter (\<lambda>l. l \<noteq> []) (map strip (split_on CHR 0x0A s))"

definition destination_city :: "string \<Rightarrow> string" where
  "destination_city l = strip (takeWhile (\<lambda>c. c \<noteq> CHR '','') l)"

definition availability_city :: "string \<Rightarrow> string" where
  "availability_city l = strip (takeWhile (\<lambda>c. c \<noteq> CHR ''-'') l)"

section \<open>Streamed content\<close>

text \<open>
  The framework's content items, as far as the notebook looks at them. A
  \<open>FunctionCallContent\<close> carries \<open>function_name\<close> (a string or \<open>None\<close>) and \<open>arguments\<close>
  (a string, a mapping or \<open>None\<close>); a \<open>FunctionResultContent\<close> carries \<open>result\<close>, kept
  here as the text that the f-string prints for it; a \<open>StreamingTextContent\<close> carries
  \<open>text\<close> (a string or \<open>None\<close>). Every other item is \<open>OtherContent\<close>.
\<close>

datatype call_arguments =
    StrArguments string
  | MappingArguments "(string \<times> string) list"
  | NoArguments

datatype content_item =
    FunctionCallContent "string option" call_arguments
  | FunctionResultContent string
  | StreamingTextContent "string option"
  | OtherContent

record 't response =
  response_thread :: 't
  response_name :: "string option"
  response_items :: "content_item list"

text \<open>
  The \<open>json\<close> module is a parameter: \<open>loads\<close> and \<open>dumps\<close> either return or raise an
  exception of a class below \<open>Exception\<close>, which is all that \<open>json.loads\<close> raises on a
  \<open>str\<close> (\<open>JSONDecodeError\<close>, a \<open>ValueError\<close>; \<open>RecursionError\<close> on deep nesting).
\<close>

datatype py_exception = JSONDecodeError | ValueError | RecursionError | TypeError

record 'j json =
  loads :: "string \<Rightarrow> py_exception + 'j"
  dumps :: "'j \<Rightarrow> py_exception + string"

section \<open>The per-turn buffers\<close>

record accumulators =
  full_response :: "string list"
  function_calls :: "string list"
  current_function_name :: "string option"
  argument_buffer :: string

text \<open>
  The \<open>try\<close> block: \<open>formatted_args\<close> is the stripped buffer, replaced by
  \<open>json.dumps(json.loads(formatted_args))\<close> when both calls return. \<open>except Exception: pass\<close>
  leaves it as it is when either raises.
\<close>

definition format_args :: "'j json \<Rightarrow> string \<Rightarrow> string" where
  "format_args js buffer =
     (let formatted_args = strip buffer
      in case loads js formatted_args of
           Inl e \<Rightarrow> formatted_args
         | Inr parsed_args \<Rightarrow>
             (case dumps js parsed_args of
                Inl e \<Rightarrow> formatted_args
              | Inr dumped \<Rightarrow> dumped))"

definition call_line :: "string \<Rightarrow> string \<Rightarrow> string" where
  "call_line function_name formatted_args =
     ''Calling function: '' @ function_name @ ''('' @ formatted_args @ '')''"

definition result_line :: "string \<Rightarrow> string" where
  "result_line result = ''\<newline>Function Result:\<newline>\<newline>'' @ result"

text \<open>The body of \<open>for item in content_items\<close>, the same in \<open>main\<close> and \<open>process_user_input\<close>.\<close>

fun process_item :: "'j json \<Rightarrow> content_item \<Rightarrow> 'a accumulators_scheme \<Rightarrow> 'a accumulators_scheme" where
  "process_item js (FunctionCallContent function_name arguments) s =
     (let s1 = (if truthy function_name then s\<lparr>current_function_name := function_name\<rparr> else s)
      in case arguments of
           StrArguments a \<Rightarrow> s1\<lparr>argument_buffer := argument_buffer s1 @ a\<rparr>
         | MappingArguments m \<Rightarrow> s1
         | NoArguments \<Rightarrow> s1)"
| "process_item js (FunctionResultContent result) s =
     (let s1 = (case current_function_name s of
                  None \<Rightarrow> s
                | Some n \<Rightarrow>
                    if n \<noteq> []
                    then s\<lparr>function_calls :=
                             function_calls s @ [call_line n (format_args js (argument_buffer s))],
                           current_function_name := None,
                           argument_buffer := []\<rparr>
                    else s)
      in s1\<lparr>function_calls := function_calls s1 @ [result_line result]\<rparr>)"
| "process_item js (StreamingTextContent txt) s =
     (case txt of
        None \<Rightarrow> s
      | Some t \<Rightarrow> if t \<noteq> [] then s\<lparr>full_response := full_response s @ [t]\<rparr> else s)"
| "process_item js OtherContent s = s"

fun process_items :: "'j json \<Rightarrow> content_item list \<Rightarrow> 'a accumulators_scheme \<Rightarrow> 'a accumulators_scheme" where
  "process_items js [] s = s"
| "process_items js (item # content_items) s = process_items js content_items (process_item js item s)"

section \<open>Rendering\<close>

text \<open>\<open>x or d\<close> for a value \<open>x\<close> that is \<open>None\<close> or a \<open>str\<close>.\<close>

fun or_default :: "string option \<Rightarrow> string \<Rightarrow> string" where
  "or_default None d = d"
| "or_default (Some x) d = (if x \<noteq> [] then x else d)"

definition user_block :: "string \<Rightarrow> string" where
  "user_block user_input =
     ''<div style='margin-bottom:10px'>''
     @ ''<div style='font-weight:bold'>User:</div>''
     @ ''<div style='margin-left:20px'>'' @ user_input @ ''</div></div>''"

definition calls_block :: "string list \<Rightarrow> string" where
  "calls_block lines =
     ''<div style='margin-bottom:10px'>''
     @ ''<details>''
     @ ''<summary style='cursor:pointer; font-weight:bold; color:#0066cc;'>Function Calls (click to expand)</summary>''
     @ ''<div style='margin:10px; padding:10px; background-color:#f8f8f8; ''
     @ ''border:1px solid #ddd; border-radius:4px; white-space:pre-wrap; font-size:14px; color:#333;'>''
     @ join [CHR 0x0A] lines
     @ ''</div></details></div>''"

definition agent_block :: "string \<Rightarrow> string list \<Rightarrow> string" where
  "agent_block name chunks =
     ''<div style='margin-bottom:20px'>''
     @ ''<div style='font-weight:bold'>'' @ name @ '':</div>''
     @ ''<div style='margin-left:20px; white-space:pre-wrap'>'' @ concat chunks
     @ ''</div></div><hr>''"

record locals = accumulators +
  html_output :: string

text \<open>The two additions to \<open>html_output\<close> after the stream has ended.\<close>

definition render :: "string \<Rightarrow> 'a locals_scheme \<Rightarrow> 'a locals_scheme" where
  "render name s =
     (let s1 = (if function_calls s \<noteq> []
                then s\<lparr>html_output := html_output s @ calls_block (function_calls s)\<rparr>
                else s)
      in s1\<lparr>html_output := html_output s1 @ agent_block name (full_response s1)\<rparr>)"

text \<open>The block that these additions leave in \<open>html_output\<close>, from the final buffers.\<close>

definition turn_html :: "string \<Rightarrow> string \<Rightarrow> accumulators \<Rightarrow> string" where
  "turn_html user_input name acc =
     user_block user_input
     @ (if function_calls acc \<noteq> [] then calls_block (function_calls acc) else [])
     @ agent_block name (full_response acc)"

section \<open>The batch loop \<open>main\<close>\<close>

text \<open>
  The variables of \<open>main\<close> and the cell's displayed outputs. The agent is a parameter:
  \<open>invoke_stream user_input thread\<close> is the finite sequence of responses it streams.
\<close>

record 't main_state = locals +
  thread :: "'t option"
  agent_name :: "string option"
  displayed :: "string list"

fun main_stream :: "'j json \<Rightarrow> 't response list \<Rightarrow> 't main_state \<Rightarrow> 't main_state" where
  "main_stream js [] s = s"
| "main_stream js (response # rest) s =
     main_stream js rest
       (process_items js (response_items response)
          (s\<lparr>main_state.thread := Some (response_thread response),
             main_state.agent_name := response_name response\<rparr>))"

definition main_turn ::
  "'j json \<Rightarrow> (string \<Rightarrow> 't option \<Rightarrow> 't response list) \<Rightarrow> string \<Rightarrow> 't main_state \<Rightarrow> 't main_state" where
  "main_turn js invoke_stream user_input s =
     (let s1 = s\<lparr>html_output := user_block user_input\<rparr>;
          s2 = s1\<lparr>main_state.agent_name := None, full_response := [], function_calls := []\<rparr>;
          s3 = s2\<lparr>current_function_name := None, argument_buffer := []\<rparr>;
          s4 = main_stream js (invoke_stream user_input (main_state.thread s3)) s3;
          s5 = render (or_default (main_state.agent_name s4) ''Assistant'') s4
      in s5\<lparr>displayed := displayed s5 @ [html_output s5]\<rparr>)"

fun main_loop ::
  "'j json \<Rightarrow> (string \<Rightarrow> 't option \<Rightarrow> 't response list) \<Rightarrow> string list \<Rightarrow> 't main_state \<Rightarrow> 't main_state" where
  "main_loop js invoke_stream [] s = s"
| "main_loop js invoke_stream (user_input # rest) s =
     main_loop js invoke_stream rest (main_turn js invoke_stream user_input s)"

text \<open>
  \<open>main\<close> starts with \<open>thread = None\<close> and nothing displayed, and loops over the
  global \<open>user_inputs\<close>. Its other variables are unbound until the first turn assigns
  them; the state gives them the values of that assignment. The result is the list of
  displayed blocks.
\<close>

definition initial_main_state :: "'t main_state" where
  "initial_main_state =
     \<lparr>full_response = [], function_calls = [], current_function_name = None,
      argument_buffer = [], html_output = [], main_state.thread = None,
      main_state.agent_name = None,
      displayed = []\<rparr>"

definition user_inputs :: "string list" where
  "user_inputs =
     [''What destinations are available?'',
      ''Is Barcelona available?'',
      ''Are there any vacation destinations available not in Europe?'']"

definition main :: "'j json \<Rightarrow> (string \<Rightarrow> 't option \<Rightarrow> 't response list) \<Rightarrow> string list" where
  "main js invoke_stream = displayed (main_loop js invoke_stream user_inputs initial_main_state)"

section \<open>The interactive chat\<close>

text \<open>
  The module's globals that the chat cell uses: \<open>thread\<close>, \<open>agent_name\<close>, the contents of
  \<open>output_area\<close>, the value of \<open>input_box\<close> and the tasks created so far, each with the
  argument of its \<open>process_user_input\<close> coroutine.
\<close>

datatype task = Process_user_input string

record 't notebook =
  thread :: "'t option"
  agent_name :: string
  output_area :: "string list"
  input_box_value :: string
  tasks :: "task list"

text \<open>A call of \<open>process_user_input\<close>: its own locals, and the globals it reads and writes.\<close>

record 't call_frame = locals +
  globals :: "'t notebook"

fun chat_stream :: "'j json \<Rightarrow> 't response list \<Rightarrow> 't call_frame \<Rightarrow> 't call_frame" where
  "chat_stream js [] f = f"
| "chat_stream js (response # rest) f =
     chat_stream js rest
       (process_items js (response_items response)
          (f\<lparr>globals := (globals f)\<lparr>notebook.thread := Some (response_thread response)\<rparr>\<rparr>))"

definition process_user_input ::
  "'j json \<Rightarrow> (string \<Rightarrow> 't option \<Rightarrow> 't response list) \<Rightarrow> string \<Rightarrow> 't notebook \<Rightarrow> 't notebook" where
  "process_user_input js invoke_stream user_input g =
     (let f0 = \<lparr>full_response = [], function_calls = [], current_function_name = None,
                argument_buffer = [], html_output = user_block user_input, globals = g\<rparr>;
          f1 = chat_stream js (invoke_stream user_input (notebook.thread (globals f0))) f0;
          f2 = render (notebook.agent_name (globals f1)) f1
      in (globals f2)\<lparr>output_area := output_area (globals f2) @ [html_output f2]\<rparr>)"

definition on_submit :: "string \<Rightarrow> 't notebook \<Rightarrow> 't notebook" where
  "on_submit change_value g =
     (let user_input = change_value
      in if strip user_input \<noteq> []
         then g\<lparr>tasks := tasks g @ [Process_user_input user_input], input_box_value := []\<rparr>
         else g)"

section \<open>Reading a stream\<close>

text \<open>
  Readings of a stream used below: all its items in order, the string-typed arguments
  of the function-call items, the non-empty texts, and three tests on an item.
\<close>

definition stream_items :: "'t response list \<Rightarrow> content_item list" where
  "stream_items responses = concat (map response_items responses)"

text \<open>The accumulators as a turn creates them.\<close>

definition fresh :: accumulators where
  "fresh = \<lparr>full_response = [], function_calls = [], current_function_name = None,
             argument_buffer = []\<rparr>"

fun item_str_arguments :: "content_item \<Rightarrow> string list" where
  "item_str_arguments (FunctionCallContent n (StrArguments a)) = [a]"
| "item_str_arguments item = []"

definition str_arguments :: "content_item list \<Rightarrow> string list" where
  "str_arguments content_items = concat (map item_str_arguments content_items)"

fun item_texts :: "content_item \<Rightarrow> string list" where
  "item_texts (StreamingTextContent (Some t)) = (if t \<noteq> [] then [t] else [])"
| "item_texts item = []"

definition texts :: "content_item list \<Rightarrow> string list" where
  "texts content_items = concat (map item_texts content_items)"

fun is_result :: "content_item \<Rightarrow> bool" where
  "is_result (FunctionResultContent r) = True"
| "is_result item = False"

fun names_function :: "content_item \<Rightarrow> bool" where
  "names_function (FunctionCallContent n a) = truthy n"
| "names_function item = False"

fun is_streaming_text :: "content_item \<Rightarrow> bool" where
  "is_streaming_text (StreamingTextContent t) = True"
| "is_streaming_text item = False"

section \<open>Example data\<close>

text \<open>
  A stand-in for the \<open>json\<close> module: it parses the empty object, written with or
  without a blank between the braces, and rejects every other text.
\<close>

definition example_json :: "(string \<times> string) list json" where
  "example_json =
     \<lparr>loads = (\<lambda>s. if s = ''{}'' \<or> s = ''{ }'' then Inr [] else Inl JSONDecodeError),
      dumps = (\<lambda>p. if p = [] then Inr ''{}'' else Inl TypeError)\<rparr>"

text \<open>
  An agent that streams two responses: string arguments before any name, a result with
  no name pending, a named call with mapping arguments, more string arguments; then the
  result of the call and text chunks, one empty and one \<open>None\<close>.
\<close>

definition example_agent :: "string \<Rightarrow> nat option \<Rightarrow> nat response list" where
  "example_agent user_input t =
     (let k = (case t of None \<Rightarrow> 0 | Some n \<Rightarrow> n)
      in [\<lparr>response_thread = k + 1, response_name = Some ''TravelAgent'',
           response_items =
             [FunctionCallContent None (StrArguments '' {''),
              FunctionResultContent ''early'',
              FunctionCallContent (Some ''get_availability'') (MappingArguments []),
              FunctionCallContent None (StrArguments '' } '')]\<rparr>,
          \<lparr>response_thread = k + 2, response_name = Some ''TravelAgent'',
           response_items =
             [FunctionResultContent ''ok'',
              StreamingTextContent (Some ''Hi''),
              StreamingTextContent (Some []),
              StreamingTextContent None,
              StreamingTextContent (Some '' there''),
              OtherContent]\<rparr>])"

definition example_notebook :: "nat notebook" where
  "example_notebook =
     \<lparr>thread = None, agent_name = ''TravelAgent'', output_area = [''intro''],
      input_box_value = [], tasks = [Process_user_input ''hi'']\<rparr>"

text \<open>A state of \<open>main\<close> whose variables hold leftovers of an earlier turn.\<close>

definition example_main_state :: "nat main_state" where
  "example_main_state =
     \<lparr>full_response = [''stale''], function_calls = [''stale call''],
      current_function_name = Some ''stale_name'', argument_buffer = ''stale args'',
      html_output = ''stale html'', main_state.thread = None,
      main_state.agent_name = Some ''Stale'',
      displayed = []\<rparr>"

section \<open>The plugin's lookups\<close>

text \<open>
  C5. The plugin exposes exactly two functions, \<open>get_destinations\<close> (no parameter) and
  \<open>get_availability\<close>. The first returns a fixed string whose entries are the five
  destinations Barcelona, Paris, Berlin, Tokyo and New York; the second returns a fixed
  string whose entries give the availability of the same five cities, in the same order.
\<close>

theorem plugin_two_lookups:
  "map kf_name DestinationsPlugin = [''get_destinations'', ''get_availability'']
   \<and> map kf_parameters DestinationsPlugin = [[], [''destination'']]
   \<and> entries get_destinations =
       [''Barcelona, Spain'', ''Paris, France'', ''Berlin, Germany'', ''Tokyo, Japan'',
        ''New York, USA'']
   \<and> entries (get_availability destination) =
       [''Barcelona - Unavailable'', ''Paris - Available'', ''Berlin - Available'',
        ''Tokyo - Unavailable'', ''New York - Available'']
   \<and> map destination_city (entries get_destinations) =
       [''Barcelona'', ''Paris'', ''Berlin'', ''Tokyo'', ''New York'']
   \<and> map availability_city (entries (get_availability destination)) =
       map destination_city (entries get_destinations)"
  by (simp add: DestinationsPlugin_def get_destinations_def get_availability_def
      entries_def destination_city_def availability_city_def strip_def isspace_def)

text \<open>
  C8. \<open>get_availability\<close> returns the same string for every destination: the result does
  not depend on the argument.
\<close>

theorem get_availability_constant:
  "get_availability d1 = get_availability d2"
  by (simp add: get_availability_def)

section \<open>The item loop\<close>

lemma process_items_append:
  "process_items js (xs @ ys) s = process_items js ys (process_items js xs s)"
  by (induction xs arbitrary: s) simp_all

lemma full_response_process_item:
  "full_response (process_item js item s) = full_response s @ item_texts item"
  by (cases item) (auto split: option.splits call_arguments.splits simp: Let_def)

lemma full_response_process_items:
  "full_response (process_items js items s) = full_response s @ texts items"
  by (induction items arbitrary: s) (simp_all add: texts_def full_response_process_item)

lemma process_item_truncate:
  "accumulators.truncate (process_item js item s) = process_item js item (accumulators.truncate s)"
  by (cases item) (auto split: option.splits call_arguments.splits simp: Let_def accumulators.truncate_def)

lemma process_items_truncate:
  "accumulators.truncate (process_items js items s) = process_items js items (accumulators.truncate s)"
  by (induction items arbitrary: s) (simp_all add: process_item_truncate)

lemma function_calls_truncate:
  "function_calls (process_items js items s) = function_calls (process_items js items (accumulators.truncate s))"
proof -
  have "function_calls (process_items js items s) = function_calls (accumulators.truncate (process_items js items s))"
    by (simp add: accumulators.truncate_def)
  then show ?thesis by (simp add: process_items_truncate)
qed

lemma name_process_item_unnamed:
  "\<not> names_function item \<Longrightarrow> current_function_name s = None \<Longrightarrow>
   current_function_name (process_item js item s) = None"
  by (cases item) (auto split: option.splits call_arguments.splits simp: Let_def)

lemma buffer_process_item_unnamed:
  "current_function_name s = None \<Longrightarrow>
   argument_buffer (process_item js item s) = argument_buffer s @ concat (item_str_arguments item)"
  by (cases item rule: item_str_arguments.cases) (auto split: option.splits call_arguments.splits simp: Let_def)

lemma buffer_process_item_no_result:
  "\<not> is_result item \<Longrightarrow>
   argument_buffer (process_item js item s) = argument_buffer s @ concat (item_str_arguments item)"
  by (cases item rule: item_str_arguments.cases) (auto split: option.splits call_arguments.splits simp: Let_def)

lemma calls_process_item_no_result:
  "\<not> is_result item \<Longrightarrow> function_calls (process_item js item s) = function_calls s"
  by (cases item) (auto split: option.splits call_arguments.splits simp: Let_def)

lemma unnamed_segment:
  "current_function_name s = None \<Longrightarrow> \<forall>i\<in>set pre. \<not> names_function i \<Longrightarrow>
   current_function_name (process_items js pre s) = None
   \<and> argument_buffer (process_items js pre s) = argument_buffer s @ concat (str_arguments pre)"
proof (induction pre arbitrary: s)
  case Nil
  then show ?case by (simp add: str_arguments_def)
next
  case (Cons item pre)
  let ?s = "process_item js item s"
  have n: "current_function_name ?s = None"
    by (rule name_process_item_unnamed) (use Cons.prems in simp_all)
  have b: "argument_buffer ?s = argument_buffer s @ concat (item_str_arguments item)"
    by (rule buffer_process_item_unnamed) (use Cons.prems in simp_all)
  have "current_function_name (process_items js pre ?s) = None
        \<and> argument_buffer (process_items js pre ?s) = argument_buffer ?s @ concat (str_arguments pre)"
    using Cons.IH [OF n] Cons.prems(2) by simp
  then show ?case using b by (simp add: str_arguments_def)
qed

lemma no_result_segment:
  "\<forall>i\<in>set post. \<not> is_result i \<Longrightarrow>
   function_calls (process_items js post s) = function_calls s
   \<and> argument_buffer (process_items js post s) = argument_buffer s @ concat (str_arguments post)"
proof (induction post arbitrary: s)
  case Nil
  show ?case by (simp add: str_arguments_def)
next
  case (Cons item post)
  let ?s = "process_item js item s"
  have "function_calls (process_items js post ?s) = function_calls ?s
        \<and> argument_buffer (process_items js post ?s) = argument_buffer ?s @ concat (str_arguments post)"
    using Cons.IH Cons.prems by simp
  then show ?case
    using Cons.prems
    by (simp add: str_arguments_def calls_process_item_no_result buffer_process_item_no_result)
qed

lemma name_ok_process_item:
  "current_function_name s \<noteq> Some [] \<Longrightarrow> current_function_name (process_item js item s) \<noteq> Some []"
  by (cases item) (auto split: option.splits call_arguments.splits simp: Let_def)

lemma name_ok_process_items:
  "current_function_name s \<noteq> Some [] \<Longrightarrow> current_function_name (process_items js items s) \<noteq> Some []"
  by (induction items arbitrary: s) (simp_all add: name_ok_process_item)

lemma process_result_pending:
  "current_function_name s = Some n \<Longrightarrow> n \<noteq> [] \<Longrightarrow>
   process_item js (FunctionResultContent r) s =
     s\<lparr>function_calls := function_calls s @ [call_line n (format_args js (argument_buffer s)), result_line r],
       current_function_name := None, argument_buffer := []\<rparr>"
  by simp


lemma format_args_cases:
  "format_args js b = strip b
   \<or> (\<exists>p. loads js (strip b) = Inr p \<and> dumps js p = Inr (format_args js b))"
  by (auto simp: format_args_def Let_def split: sum.splits)

section \<open>The stream loops\<close>

lemma process_item_globals_update:
  "process_item js item (f\<lparr>globals := G\<rparr>) = (process_item js item f)\<lparr>globals := G\<rparr>"
  by (cases item) (auto split: option.splits call_arguments.splits simp: Let_def)

lemma process_items_globals_update:
  "process_items js items (f\<lparr>globals := G\<rparr>) = (process_items js items f)\<lparr>globals := G\<rparr>"
  by (induction items arbitrary: f) (simp_all add: process_item_globals_update)

lemma process_item_thread_update:
  "process_item js item (s\<lparr>main_state.thread := t, main_state.agent_name := a\<rparr>)
   = (process_item js item s)\<lparr>main_state.thread := t, main_state.agent_name := a\<rparr>"
  by (cases item) (auto split: option.splits call_arguments.splits simp: Let_def)

lemma process_items_thread_update:
  "process_items js items (s\<lparr>main_state.thread := t, main_state.agent_name := a\<rparr>)
   = (process_items js items s)\<lparr>main_state.thread := t, main_state.agent_name := a\<rparr>"
  by (induction items arbitrary: s) (simp_all add: process_item_thread_update)

lemma globals_process_item: "globals (process_item js item f) = globals f"
  by (cases item) (auto split: option.splits call_arguments.splits simp: Let_def)

lemma globals_process_items: "globals (process_items js items f) = globals f"
  by (induction items arbitrary: f) (simp_all add: globals_process_item)

lemma chat_stream_eq:
  "chat_stream js rs f =
     (process_items js (stream_items rs) f)
       \<lparr>globals := (globals f)\<lparr>notebook.thread :=
           (if rs = [] then notebook.thread (globals f) else Some (response_thread (last rs)))\<rparr>\<rparr>"
proof (induction rs arbitrary: f)
  case Nil
  show ?case by (simp add: stream_items_def)
next
  case (Cons r rs)
  show ?case
    by (simp add: Cons.IH stream_items_def process_items_append process_items_globals_update
        globals_process_items)
qed

lemma main_stream_eq:
  "main_stream js rs s =
     (process_items js (stream_items rs) s)
       \<lparr>main_state.thread := (if rs = [] then main_state.thread s else Some (response_thread (last rs))),
        main_state.agent_name := (if rs = [] then main_state.agent_name s else response_name (last rs))\<rparr>"
proof (induction rs arbitrary: s)
  case Nil
  show ?case by (simp add: stream_items_def)
next
  case (Cons r rs)
  show ?case
    by (simp add: Cons.IH stream_items_def process_items_append process_items_thread_update)
qed


section \<open>A whole turn\<close>

lemma calls_process_item_result:
  "function_calls (process_item js (FunctionResultContent r) s) \<noteq> []"
  by (auto split: option.splits simp: Let_def)

lemma calls_process_item_grow:
  "function_calls s \<noteq> [] \<Longrightarrow> function_calls (process_item js item s) \<noteq> []"
  by (cases item) (auto split: option.splits call_arguments.splits simp: Let_def)

lemma calls_process_items_grow:
  "function_calls s \<noteq> [] \<Longrightarrow> function_calls (process_items js items s) \<noteq> []"
  by (induction items arbitrary: s) (simp_all add: calls_process_item_grow)

lemma calls_nonempty_iff:
  "(function_calls (process_items js items s) \<noteq> []) =
     (function_calls s \<noteq> [] \<or> (\<exists>i\<in>set items. is_result i))"
proof (induction items arbitrary: s)
  case Nil
  show ?case by simp
next
  case (Cons item items)
  show ?case
  proof (cases "is_result item")
    case True
    then obtain r where "item = FunctionResultContent r" by (cases item) simp_all
    then have "function_calls (process_item js item s) \<noteq> []"
      using calls_process_item_result by simp
    then have "function_calls (process_items js (item # items) s) \<noteq> []"
      by (simp add: calls_process_items_grow)
    then show ?thesis using True by simp
  next
    case False
    then have "function_calls (process_item js item s) = function_calls s"
      by (rule calls_process_item_no_result)
    then show ?thesis using False Cons.IH [of "process_item js item s"] by simp
  qed
qed

lemma truncate_frame:
  "accumulators.truncate
     \<lparr>full_response = [], function_calls = [], current_function_name = None,
      argument_buffer = [], html_output = h, globals = g\<rparr> = fresh"
  by (simp add: accumulators.truncate_def fresh_def)

lemma full_response_truncate:
  "full_response (process_items js items s) = full_response (process_items js items (accumulators.truncate s))"
  by (simp add: full_response_process_items accumulators.truncate_def)

lemma html_output_process_item: "html_output (process_item js item f) = html_output f"
  by (cases item) (auto split: option.splits call_arguments.splits simp: Let_def)

lemma html_output_process_items: "html_output (process_items js items f) = html_output f"
  by (induction items arbitrary: f) (simp_all add: html_output_process_item)

lemma process_user_input_eq:
  "process_user_input js invoke_stream user_input g =
     g\<lparr>notebook.thread :=
         (if invoke_stream user_input (notebook.thread g) = [] then notebook.thread g
          else Some (response_thread (last (invoke_stream user_input (notebook.thread g))))),
       output_area := output_area g @
         [turn_html user_input (notebook.agent_name g)
            (process_items js (stream_items (invoke_stream user_input (notebook.thread g))) fresh)]\<rparr>"
proof -
  let ?rs = "invoke_stream user_input (notebook.thread g)"
  let ?f0 = "\<lparr>full_response = [], function_calls = [], current_function_name = None,
              argument_buffer = [], html_output = user_block user_input, globals = g\<rparr>"
  let ?p = "process_items js (stream_items ?rs) ?f0"
  have fc: "function_calls ?p = function_calls (process_items js (stream_items ?rs) fresh)"
    using function_calls_truncate [of js "stream_items ?rs" ?f0] by (simp add: truncate_frame)
  have fr: "full_response ?p = full_response (process_items js (stream_items ?rs) fresh)"
    using full_response_truncate [of js "stream_items ?rs" ?f0] by (simp add: truncate_frame)
  have ho: "html_output ?p = user_block user_input"
    by (simp add: html_output_process_items)
  have gl: "globals ?p = g"
    by (simp add: globals_process_items)
  show ?thesis
    by (simp add: process_user_input_def chat_stream_eq render_def turn_html_def Let_def fc fr ho gl)
qed


lemma main_turn_reset:
  assumes "main_state.thread s = main_state.thread s'" and "displayed s = displayed s'"
  shows "main_turn js invoke_stream user_input s = main_turn js invoke_stream user_input s'"
proof -
  have "s\<lparr>html_output := h, main_state.agent_name := None, full_response := [],
          function_calls := [], current_function_name := None, argument_buffer := []\<rparr>
        = s'\<lparr>html_output := h, main_state.agent_name := None, full_response := [],
          function_calls := [], current_function_name := None, argument_buffer := []\<rparr>" for h
    using assms by (cases s, cases s') simp
  then show ?thesis
    using assms(1) by (simp add: main_turn_def Let_def)
qed

lemma truncate_main_turn:
  "accumulators.truncate (main_turn js invoke_stream user_input s)
   = process_items js (stream_items (invoke_stream user_input (main_state.thread s))) fresh"
proof -
  define rs where "rs = invoke_stream user_input (main_state.thread s)"
  define s3 where
    "s3 = s\<lparr>html_output := user_block user_input, main_state.agent_name := None,
             full_response := [], function_calls := [], current_function_name := None,
             argument_buffer := []\<rparr>"
  have a: "accumulators.truncate (main_turn js invoke_stream user_input s)
           = accumulators.truncate (main_stream js rs s3)"
    by (simp add: main_turn_def Let_def render_def accumulators.truncate_def rs_def s3_def)
  have b: "accumulators.truncate (main_stream js rs s3)
           = accumulators.truncate (process_items js (stream_items rs) s3)"
    by (simp add: main_stream_eq accumulators.truncate_def)
  have c: "accumulators.truncate (process_items js (stream_items rs) s3)
           = process_items js (stream_items rs) (accumulators.truncate s3)"
    by (rule process_items_truncate)
  have d: "accumulators.truncate s3 = fresh"
    by (simp add: s3_def accumulators.truncate_def fresh_def)
  show ?thesis using a b c d by (simp add: rs_def)
qed

lemma displayed_process_item: "displayed (process_item js item s) = displayed s"
  by (cases item) (auto split: option.splits call_arguments.splits simp: Let_def)

lemma displayed_process_items: "displayed (process_items js items s) = displayed s"
  by (induction items arbitrary: s) (simp_all add: displayed_process_item)

lemma displayed_main_turn:
  "displayed (main_turn js invoke_stream user_input s) =
     displayed s @
       [turn_html user_input
          (or_default
             (if invoke_stream user_input (main_state.thread s) = [] then None
              else response_name (last (invoke_stream user_input (main_state.thread s))))
             ''Assistant'')
          (process_items js (stream_items (invoke_stream user_input (main_state.thread s))) fresh)]"
proof -
  define rs where "rs = invoke_stream user_input (main_state.thread s)"
  define s3 where
    "s3 = s\<lparr>html_output := user_block user_input, main_state.agent_name := None,
             full_response := [], function_calls := [], current_function_name := None,
             argument_buffer := []\<rparr>"
  let ?p = "process_items js (stream_items rs) s3"
  have t: "accumulators.truncate s3 = fresh"
    by (simp add: s3_def accumulators.truncate_def fresh_def)
  have fc: "function_calls ?p = function_calls (process_items js (stream_items rs) fresh)"
    using function_calls_truncate [of js "stream_items rs" s3] by (simp add: t)
  have fr: "full_response ?p = full_response (process_items js (stream_items rs) fresh)"
    using full_response_truncate [of js "stream_items rs" s3] by (simp add: t)
  have ho: "html_output ?p = user_block user_input"
    by (simp add: html_output_process_items s3_def)
  have d: "displayed ?p = displayed s"
    by (simp add: displayed_process_items s3_def)
  have m: "main_turn js invoke_stream user_input s =
             (let s5 = render (or_default (main_state.agent_name (main_stream js rs s3)) ''Assistant'')
                         (main_stream js rs s3)
              in s5\<lparr>displayed := displayed s5 @ [html_output s5]\<rparr>)"
    by (simp add: main_turn_def Let_def rs_def s3_def)
  have n: "main_state.agent_name (main_stream js rs s3) =
             (if rs = [] then None else response_name (last rs))"
    by (simp add: main_stream_eq s3_def)
  show ?thesis
    unfolding m n
    by (simp add: main_stream_eq render_def turn_html_def Let_def fc fr ho d rs_def [symmetric])
qed

lemma thread_main_turn:
  "main_state.thread (main_turn js invoke_stream user_input s) =
     (if invoke_stream user_input (main_state.thread s) = [] then main_state.thread s
      else Some (response_thread (last (invoke_stream user_input (main_state.thread s)))))"
  by (simp add: main_turn_def Let_def main_stream_eq render_def)

lemma length_displayed_main_loop:
  "length (displayed (main_loop js invoke_stream inputs s)) = length (displayed s) + length inputs"
  by (induction inputs arbitrary: s) (simp_all add: displayed_main_turn)

section \<open>A result with a pending name\<close>

text \<open>
  C1. A function result that arrives while a function name is pending appends the line
  \<open>Calling function: name(args)\<close> and the result line, and clears the name and the
  buffer. The arguments shown are the stripped buffer passed through \<open>loads\<close> and
  \<open>dumps\<close>; when \<open>loads\<close> raises (or \<open>dumps\<close> does), the handler leaves the stripped
  buffer as it is. The step returns a state in every case: no exception leaves it,
  and a turn ends with its block displayed whatever \<open>loads\<close> and \<open>dumps\<close> do.
\<close>

theorem json_rejected_keeps_raw_arguments:
  assumes "current_function_name s = Some n" and "n \<noteq> []"
  shows "process_item js (FunctionResultContent r) s =
           s\<lparr>function_calls := function_calls s @
                 [''Calling function: '' @ n @ ''('' @ format_args js (argument_buffer s) @ '')'',
                  ''\<newline>Function Result:\<newline>\<newline>'' @ r],
             current_function_name := None, argument_buffer := []\<rparr>
         \<and> (\<forall>e. loads js (strip (argument_buffer s)) = Inl e \<longrightarrow>
                format_args js (argument_buffer s) = strip (argument_buffer s))
         \<and> (\<forall>p e. loads js (strip (argument_buffer s)) = Inr p \<and> dumps js p = Inl e \<longrightarrow>
                format_args js (argument_buffer s) = strip (argument_buffer s))
         \<and> (\<forall>p d. loads js (strip (argument_buffer s)) = Inr p \<and> dumps js p = Inr d \<longrightarrow>
                format_args js (argument_buffer s) = d)
         \<and> (\<exists>block. output_area (process_user_input js invoke_stream user_input g)
                       = output_area g @ [block])"
  using assms
  by (simp add: call_line_def result_line_def format_args_def process_user_input_eq)

theorem json_rejected_keeps_raw_arguments_witness:
  "process_item example_json (FunctionResultContent ''ok'')
     \<lparr>full_response = [], function_calls = [],
      current_function_name = Some ''get_availability'', argument_buffer = '' {Paris ''\<rparr>
   = \<lparr>full_response = [],
      function_calls = [''Calling function: get_availability({Paris)'',
                        ''\<newline>Function Result:\<newline>\<newline>ok''],
      current_function_name = None, argument_buffer = []\<rparr>
   \<and> length (output_area (process_user_input example_json example_agent ''hi'' example_notebook)) = 2"
proof -
  let ?s = "\<lparr>full_response = [], function_calls = [],
             current_function_name = Some ''get_availability'', argument_buffer = '' {Paris ''\<rparr>"
  have pending: "current_function_name ?s = Some ''get_availability''" by simp
  have truthy: "''get_availability'' \<noteq> []" by simp
  have stripped: "strip '' {Paris '' = ''{Paris''"
    by (simp add: strip_def isspace_def)
  have rejected: "loads example_json (strip (argument_buffer ?s)) = Inl JSONDecodeError"
    by (simp add: stripped example_json_def)
  note inst = json_rejected_keeps_raw_arguments
                [OF pending truthy, where js = example_json and r = "''ok''"
                   and invoke_stream = example_agent and user_input = "''hi''"
                   and g = example_notebook]
  have raw: "format_args example_json (argument_buffer ?s) = strip (argument_buffer ?s)"
    using inst rejected by blast
  have step: "process_item example_json (FunctionResultContent ''ok'') ?s =
                ?s\<lparr>function_calls := function_calls ?s @
                      [''Calling function: '' @ ''get_availability'' @ ''(''
                         @ format_args example_json (argument_buffer ?s) @ '')'',
                       ''\<newline>Function Result:\<newline>\<newline>'' @ ''ok''],
                    current_function_name := None, argument_buffer := []\<rparr>"
    using inst by blast
  obtain block where
    "output_area (process_user_input example_json example_agent ''hi'' example_notebook)
     = output_area example_notebook @ [block]"
    using inst by blast
  then have shown:
    "length (output_area (process_user_input example_json example_agent ''hi'' example_notebook)) = 2"
    by (simp add: example_notebook_def)
  show ?thesis
    unfolding step raw using shown by (simp add: stripped)
qed

section \<open>Reconstructed calls\<close>

text \<open>
  C2. Start where the pending name is \<open>None\<close> and the buffer is empty: at the start of
  a turn or right after a reconstructed call. Let the items up to the next reconstruction
  be \<open>pre @ post\<close>, where \<open>pre\<close> names no function (results inside it complete nothing)
  and \<open>post\<close> has no result. If a name \<open>n\<close> is pending after them, the next result
  appends the call line of \<open>n\<close> whose arguments are the concatenation, in order, of the
  string-typed arguments of these items, stripped and re-serialised by \<open>format_args\<close>;
  then the name is \<open>None\<close> and the buffer empty again. \<open>format_args\<close> gives the stripped
  text or what \<open>dumps\<close> returns for what \<open>loads\<close> parsed from it. Arguments that are a
  mapping or \<open>None\<close> add nothing to the buffer.
\<close>

theorem arguments_reconstructed:
  assumes "current_function_name s = None" and "argument_buffer s = []"
    and "\<forall>i\<in>set pre. \<not> names_function i"
    and "\<forall>i\<in>set post. \<not> is_result i"
    and "current_function_name (process_items js (pre @ post) s) = Some n"
  shows "process_items js (pre @ post @ [FunctionResultContent r]) s =
           (process_items js (pre @ post) s)
             \<lparr>function_calls := function_calls (process_items js pre s) @
                [''Calling function: '' @ n @ ''(''
                   @ format_args js (concat (str_arguments (pre @ post))) @ '')'',
                 ''\<newline>Function Result:\<newline>\<newline>'' @ r],
              current_function_name := None, argument_buffer := []\<rparr>
         \<and> (format_args js b = strip b
              \<or> (\<exists>p. loads js (strip b) = Inr p \<and> dumps js p = Inr (format_args js b)))
         \<and> str_arguments (xs @ [FunctionCallContent fn (StrArguments a)]) = str_arguments xs @ [a]
         \<and> str_arguments (xs @ [FunctionCallContent fn (MappingArguments m)]) = str_arguments xs
         \<and> str_arguments (xs @ [FunctionCallContent fn NoArguments]) = str_arguments xs
         \<and> argument_buffer (process_item js (FunctionCallContent fn (MappingArguments m)) s') = argument_buffer s'
         \<and> argument_buffer (process_item js (FunctionCallContent fn NoArguments) s') = argument_buffer s'"
proof -
  let ?mid = "process_items js pre s"
  let ?end = "process_items js (pre @ post) s"
  have pre: "current_function_name ?mid = None
             \<and> argument_buffer ?mid = argument_buffer s @ concat (str_arguments pre)"
    using assms(1,3) by (rule unnamed_segment)
  have post: "function_calls (process_items js post ?mid) = function_calls ?mid
              \<and> argument_buffer (process_items js post ?mid)
                  = argument_buffer ?mid @ concat (str_arguments post)"
    using assms(4) by (rule no_result_segment)
  have buf: "argument_buffer ?end = concat (str_arguments (pre @ post))"
    using pre post assms(2) by (simp add: process_items_append str_arguments_def)
  have calls: "function_calls ?end = function_calls ?mid"
    using post by (simp add: process_items_append)
  have "current_function_name ?end \<noteq> Some []"
    using assms(1) by (intro name_ok_process_items) simp
  then have n: "n \<noteq> []" using assms(5) by auto
  have step: "process_items js (pre @ post @ [FunctionResultContent r]) s
              = process_item js (FunctionResultContent r) ?end"
    using process_items_append [of js "pre @ post" "[FunctionResultContent r]" s] by simp
  have "process_item js (FunctionResultContent r) ?end =
          ?end\<lparr>function_calls := function_calls ?end @
                   [call_line n (format_args js (argument_buffer ?end)), result_line r],
                current_function_name := None, argument_buffer := []\<rparr>"
    using assms(5) n by (rule process_result_pending)
  then have first: "process_items js (pre @ post @ [FunctionResultContent r]) s =
           ?end\<lparr>function_calls := function_calls ?mid @
                [''Calling function: '' @ n @ ''(''
                   @ format_args js (concat (str_arguments (pre @ post))) @ '')'',
                 ''\<newline>Function Result:\<newline>\<newline>'' @ r],
              current_function_name := None, argument_buffer := []\<rparr>"
    using step buf calls by (simp add: call_line_def result_line_def)
  have rest: "str_arguments (xs @ [FunctionCallContent fn (StrArguments a)]) = str_arguments xs @ [a]"
    "str_arguments (xs @ [FunctionCallContent fn (MappingArguments m)]) = str_arguments xs"
    "str_arguments (xs @ [FunctionCallContent fn NoArguments]) = str_arguments xs"
    "argument_buffer (process_item js (FunctionCallContent fn (MappingArguments m)) s') = argument_buffer s'"
    "argument_buffer (process_item js (FunctionCallContent fn NoArguments) s') = argument_buffer s'"
    by (simp_all add: str_arguments_def Let_def)
  show ?thesis using first format_args_cases [of js b] rest by blast
qed

lemma strip_examples:
  "strip '' { } '' = ''{ }''" "strip '' {'' = ''{''" "strip ''  '' = []"
  by (simp_all add: strip_def isspace_def)

theorem arguments_reconstructed_witness:
  "process_items example_json
     ([FunctionCallContent None (StrArguments '' {''), FunctionResultContent ''early'']
      @ [FunctionCallContent (Some ''get_availability'') (MappingArguments []),
         FunctionCallContent None (StrArguments '' } '')]
      @ [FunctionResultContent ''ok'']) fresh
   = \<lparr>full_response = [],
      function_calls = [''\<newline>Function Result:\<newline>\<newline>early'',
                        ''Calling function: get_availability({})'',
                        ''\<newline>Function Result:\<newline>\<newline>ok''],
      current_function_name = None, argument_buffer = []\<rparr>"
proof -
  let ?pre = "[FunctionCallContent None (StrArguments '' {''), FunctionResultContent ''early'']"
  let ?post = "[FunctionCallContent (Some ''get_availability'') (MappingArguments []),
                FunctionCallContent None (StrArguments '' } '')]"
  have h1: "current_function_name fresh = None" by (simp add: fresh_def)
  have h2: "argument_buffer fresh = []" by (simp add: fresh_def)
  have h3: "\<forall>i\<in>set ?pre. \<not> names_function i" by simp
  have h4: "\<forall>i\<in>set ?post. \<not> is_result i" by simp
  have h5: "current_function_name (process_items example_json (?pre @ ?post) fresh)
            = Some ''get_availability''"
    by (simp add: fresh_def)
  have args: "format_args example_json (concat (str_arguments (?pre @ ?post))) = ''{}''"
    by (simp add: str_arguments_def format_args_def strip_examples example_json_def)
  have "process_items example_json (?pre @ ?post @ [FunctionResultContent ''ok'']) fresh =
          (process_items example_json (?pre @ ?post) fresh)
            \<lparr>function_calls := function_calls (process_items example_json ?pre fresh) @
               [''Calling function: '' @ ''get_availability'' @ ''(''
                  @ format_args example_json (concat (str_arguments (?pre @ ?post))) @ '')'',
                ''\<newline>Function Result:\<newline>\<newline>'' @ ''ok''],
             current_function_name := None, argument_buffer := []\<rparr>"
    using arguments_reconstructed [OF h1 h2 h3 h4 h5] by blast
  then show ?thesis
    unfolding args by (simp add: fresh_def result_line_def)
qed

section \<open>A result with no pending name\<close>

text \<open>
  C9. A function result that arrives while no name is pending appends its result line
  only and leaves the name and the buffer as they are. The buffered text is then part of
  the arguments of the next call completed in the turn: if the following items \<open>post\<close>
  hold no result and leave a name \<open>n\<close> pending, the next result appends the call line of
  \<open>n\<close> with the old buffer followed by the string arguments of \<open>post\<close>.
\<close>

theorem result_without_pending_name:
  assumes "current_function_name s = None"
  shows "process_item js (FunctionResultContent r) s
           = s\<lparr>function_calls := function_calls s @ [''\<newline>Function Result:\<newline>\<newline>'' @ r]\<rparr>
         \<and> ((\<forall>i\<in>set post. \<not> is_result i)
              \<and> current_function_name
                    (process_items js (FunctionResultContent r # post) s) = Some n
              \<longrightarrow> function_calls
                    (process_items js (FunctionResultContent r # post @ [FunctionResultContent r2]) s)
                  = function_calls s @
                      [''\<newline>Function Result:\<newline>\<newline>'' @ r,
                       ''Calling function: '' @ n @ ''(''
                          @ format_args js (argument_buffer s @ concat (str_arguments post)) @ '')'',
                       ''\<newline>Function Result:\<newline>\<newline>'' @ r2])"
proof -
  let ?s1 = "process_item js (FunctionResultContent r) s"
  have first: "?s1 = s\<lparr>function_calls := function_calls s @ [''\<newline>Function Result:\<newline>\<newline>'' @ r]\<rparr>"
    using assms by (simp add: result_line_def)
  have second: "function_calls
                  (process_items js (FunctionResultContent r # post @ [FunctionResultContent r2]) s)
                = function_calls s @
                    [''\<newline>Function Result:\<newline>\<newline>'' @ r,
                     ''Calling function: '' @ n @ ''(''
                        @ format_args js (argument_buffer s @ concat (str_arguments post)) @ '')'',
                     ''\<newline>Function Result:\<newline>\<newline>'' @ r2]"
    if nores: "\<forall>i\<in>set post. \<not> is_result i"
      and pend: "current_function_name (process_items js (FunctionResultContent r # post) s) = Some n"
  proof -
    let ?s2 = "process_items js post ?s1"
    have seg: "function_calls ?s2 = function_calls ?s1
               \<and> argument_buffer ?s2 = argument_buffer ?s1 @ concat (str_arguments post)"
      using nores by (rule no_result_segment)
    have name: "current_function_name ?s2 = Some n" using pend by simp
    have "current_function_name ?s1 \<noteq> Some []" using first assms by simp
    then have "current_function_name ?s2 \<noteq> Some []" by (rule name_ok_process_items)
    then have n: "n \<noteq> []" using name by auto
    have "process_item js (FunctionResultContent r2) ?s2 =
            ?s2\<lparr>function_calls := function_calls ?s2 @
                     [call_line n (format_args js (argument_buffer ?s2)), result_line r2],
                 current_function_name := None, argument_buffer := []\<rparr>"
      using name n by (rule process_result_pending)
    moreover have "process_items js (FunctionResultContent r # post @ [FunctionResultContent r2]) s
                   = process_item js (FunctionResultContent r2) ?s2"
      by (simp add: process_items_append)
    ultimately show ?thesis
      using seg first by (simp add: call_line_def result_line_def)
  qed
  show ?thesis using first second by blast
qed

theorem result_without_pending_name_witness:
  "process_item example_json (FunctionResultContent ''early'') (fresh\<lparr>argument_buffer := '' {''\<rparr>)
     = \<lparr>full_response = [],
        function_calls = [''\<newline>Function Result:\<newline>\<newline>early''],
        current_function_name = None, argument_buffer = '' {''\<rparr>
   \<and> function_calls
       (process_items example_json
          (FunctionResultContent ''early''
           # [FunctionCallContent (Some ''get_availability'') (MappingArguments []),
              FunctionCallContent None (StrArguments '' } '')]
           @ [FunctionResultContent ''ok''])
          (fresh\<lparr>argument_buffer := '' {''\<rparr>))
     = [''\<newline>Function Result:\<newline>\<newline>early'',
        ''Calling function: get_availability({})'',
        ''\<newline>Function Result:\<newline>\<newline>ok'']"
proof -
  let ?s = "fresh\<lparr>argument_buffer := '' {''\<rparr>"
  let ?post = "[FunctionCallContent (Some ''get_availability'') (MappingArguments []),
                FunctionCallContent None (StrArguments '' } '')]"
  have h: "current_function_name ?s = None" by (simp add: fresh_def)
  have nores: "\<forall>i\<in>set ?post. \<not> is_result i" by simp
  have pend: "current_function_name
                (process_items example_json (FunctionResultContent ''early'' # ?post) ?s)
              = Some ''get_availability''"
    by (simp add: fresh_def)
  have args: "format_args example_json (argument_buffer ?s @ concat (str_arguments ?post)) = ''{}''"
    by (simp add: str_arguments_def format_args_def strip_examples example_json_def)
  note inst = result_without_pending_name
               [OF h, of example_json "''early''" ?post "''get_availability''" "''ok''"]
  have a: "process_item example_json (FunctionResultContent ''early'') ?s
           = ?s\<lparr>function_calls := function_calls ?s @ [''\<newline>Function Result:\<newline>\<newline>'' @ ''early'']\<rparr>"
    using inst by blast
  have b: "function_calls
             (process_items example_json
                (FunctionResultContent ''early'' # ?post @ [FunctionResultContent ''ok'']) ?s)
           = function_calls ?s @
               [''\<newline>Function Result:\<newline>\<newline>'' @ ''early'',
                ''Calling function: '' @ ''get_availability'' @ ''(''
                   @ format_args example_json (argument_buffer ?s @ concat (str_arguments ?post)) @ '')'',
                ''\<newline>Function Result:\<newline>\<newline>'' @ ''ok'']"
    using inst nores pend by blast
  show ?thesis
    using a b unfolding args by (simp add: fresh_def)
qed

section \<open>Text and calls do not mix\<close>

lemma calls_view_process_item:
  assumes "function_calls s = function_calls s'"
    and "current_function_name s = current_function_name s'"
    and "argument_buffer s = argument_buffer s'"
  shows "function_calls (process_item js item s) = function_calls (process_item js item s')
         \<and> current_function_name (process_item js item s) = current_function_name (process_item js item s')
         \<and> argument_buffer (process_item js item s) = argument_buffer (process_item js item s')"
  using assms by (cases item) (auto split: option.splits call_arguments.splits simp: Let_def)

lemma calls_view_streaming_text:
  assumes "is_streaming_text item"
  shows "function_calls (process_item js item s) = function_calls s
         \<and> current_function_name (process_item js item s) = current_function_name s
         \<and> argument_buffer (process_item js item s) = argument_buffer s"
  using assms by (cases item) (auto split: option.splits)

lemma calls_view_without_text:
  assumes "function_calls s = function_calls s'"
    and "current_function_name s = current_function_name s'"
    and "argument_buffer s = argument_buffer s'"
  shows "function_calls (process_items js items s)
           = function_calls (process_items js (filter (\<lambda>i. \<not> is_streaming_text i) items) s')
         \<and> current_function_name (process_items js items s)
           = current_function_name (process_items js (filter (\<lambda>i. \<not> is_streaming_text i) items) s')
         \<and> argument_buffer (process_items js items s)
           = argument_buffer (process_items js (filter (\<lambda>i. \<not> is_streaming_text i) items) s')"
  using assms
proof (induction items arbitrary: s s')
  case Nil
  then show ?case by simp
next
  case (Cons item items)
  show ?case
  proof (cases "is_streaming_text item")
    case True
    have "function_calls (process_item js item s) = function_calls s'
          \<and> current_function_name (process_item js item s) = current_function_name s'
          \<and> argument_buffer (process_item js item s) = argument_buffer s'"
      using calls_view_streaming_text [OF True, of js s] Cons.prems by simp
    then show ?thesis
      using Cons.IH [of "process_item js item s" s'] True by simp
  next
    case False
    have "function_calls (process_item js item s) = function_calls (process_item js item s')
          \<and> current_function_name (process_item js item s) = current_function_name (process_item js item s')
          \<and> argument_buffer (process_item js item s) = argument_buffer (process_item js item s')"
      using Cons.prems by (intro calls_view_process_item)
    then show ?thesis
      using Cons.IH [of "process_item js item s" "process_item js item s'"] False by simp
  qed
qed

lemma texts_snoc: "texts (xs @ [item]) = texts xs @ item_texts item"
  by (simp add: texts_def)

section \<open>What a turn displays\<close>

text \<open>
  C3. A processed user input appends exactly one block to the output: the user block with
  the message, then the collapsible function-calls block, present exactly when
  \<open>function_calls\<close> is not empty, which is exactly when the stream held a function result,
  then the agent block with the response text, which ends with the horizontal rule. This
  holds for \<open>process_user_input\<close> and for a turn of \<open>main\<close>; the loop of \<open>main\<close> displays one
  block per input, three for \<open>user_inputs\<close>. The text of the three kinds of block is
  given in full.
\<close>

theorem one_block_per_turn:
  "(let content_items = stream_items (invoke_stream user_input (notebook.thread g));
        acc = process_items js content_items fresh
    in output_area (process_user_input js invoke_stream user_input g)
         = output_area g @
             [user_block user_input
              @ (if function_calls acc \<noteq> [] then calls_block (function_calls acc) else [])
              @ agent_block (notebook.agent_name g) (full_response acc)]
       \<and> (function_calls acc \<noteq> []) = (\<exists>i\<in>set content_items. is_result i))
   \<and> (let responses = invoke_stream user_input (main_state.thread s);
          acc = process_items js (stream_items responses) fresh
      in displayed (main_turn js invoke_stream user_input s)
           = displayed s @
               [user_block user_input
                @ (if function_calls acc \<noteq> [] then calls_block (function_calls acc) else [])
                @ agent_block
                    (or_default (if responses = [] then None else response_name (last responses))
                       ''Assistant'')
                    (full_response acc)]
         \<and> (function_calls acc \<noteq> []) = (\<exists>i\<in>set (stream_items responses). is_result i))
   \<and> length (displayed (main_loop js invoke_stream inputs s))
       = length (displayed s) + length inputs
   \<and> length (main js invoke_stream) = 3
   \<and> user_block user_input
       = ''<div style='margin-bottom:10px'><div style='font-weight:bold'>User:</div><div style='margin-left:20px'>''
         @ user_input @ ''</div></div>''
   \<and> calls_block call_lines
       = ''<div style='margin-bottom:10px'><details><summary style='cursor:pointer; font-weight:bold; color:#0066cc;'>Function Calls (click to expand)</summary><div style='margin:10px; padding:10px; background-color:#f8f8f8; border:1px solid #ddd; border-radius:4px; white-space:pre-wrap; font-size:14px; color:#333;'>''
         @ join ''\<newline>'' call_lines @ ''</div></details></div>''
   \<and> agent_block name chunks
       = ''<div style='margin-bottom:20px'><div style='font-weight:bold'>'' @ name
         @ '':</div><div style='margin-left:20px; white-space:pre-wrap'>'' @ concat chunks
         @ ''</div></div><hr>''"
proof -
  have nonempty: "(function_calls (process_items js xs fresh) \<noteq> []) = (\<exists>i\<in>set xs. is_result i)" for xs
    using calls_nonempty_iff [of js xs fresh] by (simp add: fresh_def)
  have chat: "output_area (process_user_input js invoke_stream user_input g)
         = output_area g @
             [turn_html user_input (notebook.agent_name g)
                (process_items js (stream_items (invoke_stream user_input (notebook.thread g))) fresh)]"
    by (simp add: process_user_input_eq)
  have blocks: "user_block user_input
       = ''<div style='margin-bottom:10px'><div style='font-weight:bold'>User:</div><div style='margin-left:20px'>''
         @ user_input @ ''</div></div>''"
    "calls_block call_lines
       = ''<div style='margin-bottom:10px'><details><summary style='cursor:pointer; font-weight:bold; color:#0066cc;'>Function Calls (click to expand)</summary><div style='margin:10px; padding:10px; background-color:#f8f8f8; border:1px solid #ddd; border-radius:4px; white-space:pre-wrap; font-size:14px; color:#333;'>''
         @ join ''\<newline>'' call_lines @ ''</div></details></div>''"
    "agent_block name chunks
       = ''<div style='margin-bottom:20px'><div style='font-weight:bold'>'' @ name
         @ '':</div><div style='margin-left:20px; white-space:pre-wrap'>'' @ concat chunks
         @ ''</div></div><hr>''"
    by (simp_all add: user_block_def calls_block_def agent_block_def)
  show ?thesis
    unfolding Let_def
    apply (intro conjI)
          apply (simp add: chat turn_html_def)
         apply (rule nonempty)
        apply (simp add: displayed_main_turn turn_html_def)
       apply (rule nonempty)
       apply (rule length_displayed_main_loop)
      apply (simp only: main_def length_displayed_main_loop)
      apply (simp add: initial_main_state_def user_inputs_def)
     apply (rule blocks(1))
    apply (rule blocks(2))
   apply (rule blocks(3))
  done
qed

lemma example_turn:
  "process_items example_json (stream_items (example_agent user_input None)) fresh
   = \<lparr>full_response = [''Hi'', '' there''],
      function_calls = [''\<newline>Function Result:\<newline>\<newline>early'',
                        ''Calling function: get_availability({})'',
                        ''\<newline>Function Result:\<newline>\<newline>ok''],
      current_function_name = None, argument_buffer = []\<rparr>"
  by (simp add: example_agent_def stream_items_def fresh_def format_args_def strip_examples
      example_json_def call_line_def result_line_def)

theorem one_block_per_turn_witness:
  "output_area (process_user_input example_json example_agent ''hi'' example_notebook)
   = [''intro'',
      user_block ''hi''
      @ calls_block [''\<newline>Function Result:\<newline>\<newline>early'',
                     ''Calling function: get_availability({})'',
                     ''\<newline>Function Result:\<newline>\<newline>ok'']
      @ agent_block ''TravelAgent'' [''Hi'', '' there'']]"
proof -
  have "(let content_items = stream_items (example_agent ''hi'' (notebook.thread example_notebook));
             acc = process_items example_json content_items fresh
         in output_area (process_user_input example_json example_agent ''hi'' example_notebook)
              = output_area example_notebook @
                  [user_block ''hi''
                   @ (if function_calls acc \<noteq> [] then calls_block (function_calls acc) else [])
                   @ agent_block (notebook.agent_name example_notebook) (full_response acc)]
            \<and> (function_calls acc \<noteq> []) = (\<exists>i\<in>set content_items. is_result i))"
    using one_block_per_turn [of example_agent "''hi''" example_notebook example_json]
    by blast
  then show ?thesis
    by (simp add: Let_def example_notebook_def example_turn)
qed

section \<open>What a turn keeps\<close>

text \<open>
  C4. A turn of \<open>main\<close> gives the same state whatever the buffers, \<open>html_output\<close> and
  \<open>agent_name\<close> held before it, as long as \<open>thread\<close> and the displayed outputs agree: the
  turn assigns them anew. After the turn the four buffers (\<open>accumulators.truncate\<close> keeps
  these four fields) are what the turn's stream gives from the fresh ones. \<open>thread\<close> is
  assigned at every response, so it is the thread of the last response, or the old one
  when the stream is empty. \<open>process_user_input\<close> changes only the global \<open>thread\<close>, in
  the same way, and the output area, by one block computed from fresh buffers.
\<close>

theorem only_thread_persists:
  "(main_state.thread s = main_state.thread s' \<and> displayed s = displayed s'
      \<longrightarrow> main_turn js invoke_stream user_input s = main_turn js invoke_stream user_input s')
   \<and> accumulators.truncate (main_turn js invoke_stream user_input s)
       = process_items js (stream_items (invoke_stream user_input (main_state.thread s))) fresh
   \<and> main_state.thread (main_turn js invoke_stream user_input s)
       = (if invoke_stream user_input (main_state.thread s) = [] then main_state.thread s
          else Some (response_thread (last (invoke_stream user_input (main_state.thread s)))))
   \<and> main_state.thread (main_stream js (responses @ [response]) s) = Some (response_thread response)
   \<and> notebook.thread (globals (chat_stream js (responses @ [response]) f))
       = Some (response_thread response)
   \<and> process_user_input js invoke_stream user_input g
       = g\<lparr>notebook.thread :=
             (if invoke_stream user_input (notebook.thread g) = [] then notebook.thread g
              else Some (response_thread (last (invoke_stream user_input (notebook.thread g))))),
           output_area := output_area g @
             [turn_html user_input (notebook.agent_name g)
                (process_items js (stream_items (invoke_stream user_input (notebook.thread g))) fresh)]\<rparr>"
proof -
  have a: "main_state.thread s = main_state.thread s' \<and> displayed s = displayed s'
      \<longrightarrow> main_turn js invoke_stream user_input s = main_turn js invoke_stream user_input s'"
    using main_turn_reset by blast
  have b: "main_state.thread (main_stream js (responses @ [response]) s) = Some (response_thread response)"
    by (simp add: main_stream_eq)
  have c: "notebook.thread (globals (chat_stream js (responses @ [response]) f))
           = Some (response_thread response)"
    by (simp add: chat_stream_eq)
  show ?thesis
    using a b c truncate_main_turn [of js invoke_stream user_input s]
      thread_main_turn [of js invoke_stream user_input s]
      process_user_input_eq [of js invoke_stream user_input g]
    by blast
qed

theorem only_thread_persists_witness:
  "main_turn example_json example_agent ''hi'' example_main_state
     = main_turn example_json example_agent ''hi'' initial_main_state
   \<and> main_state.thread (main_turn example_json example_agent ''hi'' example_main_state) = Some 2
   \<and> accumulators.truncate (main_turn example_json example_agent ''hi'' example_main_state)
     = \<lparr>full_response = [''Hi'', '' there''],
        function_calls = [''\<newline>Function Result:\<newline>\<newline>early'',
                          ''Calling function: get_availability({})'',
                          ''\<newline>Function Result:\<newline>\<newline>ok''],
        current_function_name = None, argument_buffer = []\<rparr>"
proof -
  note inst = only_thread_persists
                [of example_main_state initial_main_state example_json example_agent "''hi''"]
  have same: "main_state.thread example_main_state = main_state.thread initial_main_state
              \<and> displayed example_main_state = displayed initial_main_state"
    by (simp add: example_main_state_def initial_main_state_def)
  have a: "main_turn example_json example_agent ''hi'' example_main_state
           = main_turn example_json example_agent ''hi'' initial_main_state"
    using inst same by blast
  have t: "main_state.thread example_main_state = None"
    by (simp add: example_main_state_def)
  have b: "main_state.thread (main_turn example_json example_agent ''hi'' example_main_state)
           = (if example_agent ''hi'' (main_state.thread example_main_state) = []
              then main_state.thread example_main_state
              else Some (response_thread (last (example_agent ''hi'' (main_state.thread example_main_state)))))"
    using inst by blast
  have c: "accumulators.truncate (main_turn example_json example_agent ''hi'' example_main_state)
           = process_items example_json
               (stream_items (example_agent ''hi'' (main_state.thread example_main_state))) fresh"
    using inst by blast
  have b': "main_state.thread (main_turn example_json example_agent ''hi'' example_main_state) = Some 2"
    unfolding b t by (simp add: example_agent_def)
  show ?thesis
    using a b' c unfolding t by (simp add: example_turn)
qed

section \<open>The response text and the function-calls block\<close>

lemma process_items_snoc:
  "process_items js (xs @ [item]) s = process_item js item (process_items js xs s)"
  by (simp add: process_items_append)

lemma name_from_fresh: "current_function_name (process_items js xs fresh) \<noteq> Some []"
  by (rule name_ok_process_items) (simp add: fresh_def)

lemma result_event:
  "function_calls (process_items js (xs @ [FunctionResultContent r]) fresh)
     = function_calls (process_items js xs fresh)
       @ (case current_function_name (process_items js xs fresh) of
            None \<Rightarrow> []
          | Some name \<Rightarrow>
              [''Calling function: '' @ name @ ''(''
                 @ format_args js (argument_buffer (process_items js xs fresh)) @ '')''])
       @ [''\<newline>Function Result:\<newline>\<newline>'' @ r]
   \<and> current_function_name (process_items js (xs @ [FunctionResultContent r]) fresh) = None
   \<and> argument_buffer (process_items js (xs @ [FunctionResultContent r]) fresh)
     = (case current_function_name (process_items js xs fresh) of
          None \<Rightarrow> argument_buffer (process_items js xs fresh)
        | Some name \<Rightarrow> [])"
proof (cases "current_function_name (process_items js xs fresh)")
  case None
  then show ?thesis
    by (simp add: process_items_snoc result_line_def Let_def)
next
  case (Some name)
  then have "name \<noteq> []" using name_from_fresh [of js xs] by auto
  then show ?thesis
    using Some by (simp add: process_items_snoc call_line_def result_line_def Let_def)
qed

lemma call_event:
  "function_calls (process_items js (xs @ [FunctionCallContent n a]) s)
     = function_calls (process_items js xs s)
   \<and> current_function_name (process_items js (xs @ [FunctionCallContent n a]) s)
     = (if truthy n then n else current_function_name (process_items js xs s))
   \<and> argument_buffer (process_items js (xs @ [FunctionCallContent n a]) s)
     = argument_buffer (process_items js xs s) @ concat (str_arguments [FunctionCallContent n a])"
  by (cases a) (simp_all add: process_items_snoc Let_def str_arguments_def)

lemma text_event:
  "function_calls (process_items js (xs @ [StreamingTextContent t]) s)
     = function_calls (process_items js xs s)
   \<and> current_function_name (process_items js (xs @ [StreamingTextContent t]) s)
     = current_function_name (process_items js xs s)
   \<and> argument_buffer (process_items js (xs @ [StreamingTextContent t]) s)
     = argument_buffer (process_items js xs s)"
  by (simp add: process_items_snoc split: option.splits)

lemma other_event:
  "function_calls (process_items js (xs @ [OtherContent]) s)
     = function_calls (process_items js xs s)
   \<and> current_function_name (process_items js (xs @ [OtherContent]) s)
     = current_function_name (process_items js xs s)
   \<and> argument_buffer (process_items js (xs @ [OtherContent]) s)
     = argument_buffer (process_items js xs s)"
  by (simp add: process_items_snoc)

lemma calls_kept_process_item:
  "set (function_calls s) \<subseteq> set (function_calls (process_item js item s))"
  by (cases item) (auto split: option.splits call_arguments.splits simp: Let_def)

lemma calls_kept_process_items:
  "set (function_calls s) \<subseteq> set (function_calls (process_items js items s))"
proof (induction items arbitrary: s)
  case Nil
  show ?case by simp
next
  case (Cons item items)
  have "set (function_calls s) \<subseteq> set (function_calls (process_item js item s))"
    by (rule calls_kept_process_item)
  also have "\<dots> \<subseteq> set (function_calls (process_items js items (process_item js item s)))"
    by (rule Cons.IH)
  finally show ?case by simp
qed

lemma result_line_collected:
  "FunctionResultContent r \<in> set items \<Longrightarrow>
   (''\<newline>Function Result:\<newline>\<newline>'' @ r) \<in> set (function_calls (process_items js items s))"
proof (induction items arbitrary: s)
  case Nil
  then show ?case by simp
next
  case (Cons item items)
  show ?case
  proof (cases "item = FunctionResultContent r")
    case True
    have "(''\<newline>Function Result:\<newline>\<newline>'' @ r)
          \<in> set (function_calls (process_item js item s))"
      unfolding True by (auto simp: result_line_def Let_def split: option.splits)
    then show ?thesis
      using calls_kept_process_items [of "process_item js item s" js items] by auto
  next
    case False
    then have "FunctionResultContent r \<in> set items" using Cons.prems by simp
    then show ?thesis using Cons.IH by simp
  qed
qed

lemma calls_block_text:
  "calls_block call_lines
   = ''<div style='margin-bottom:10px'><details><summary style='cursor:pointer; font-weight:bold; color:#0066cc;'>Function Calls (click to expand)</summary><div style='margin:10px; padding:10px; background-color:#f8f8f8; border:1px solid #ddd; border-radius:4px; white-space:pre-wrap; font-size:14px; color:#333;'>''
     @ join ''\<newline>'' call_lines @ ''</div></details></div>''"
  by (simp add: calls_block_def)

text \<open>
  C6. The buffer \<open>full_response\<close> of a turn holds the non-empty texts of the streamed
  \<open>StreamingTextContent\<close> items in order, and the agent block of the displayed output
  shows their concatenation. A text that is empty or \<open>None\<close> adds nothing, and neither
  does a function call, a function result or any other item.

  The function-call and function-result events go to the function-calls block, which
  stands between the user block and the agent block and holds the collected lines of
  \<open>function_calls\<close> joined by line feeds. The lines are fixed event by event, in stream
  order, starting from no line, no pending name and an empty buffer:
  \<^item> a function result appends the call line \<open>Calling function: name(args)\<close> of the
    pending name, if there is one, and then its own result line, and leaves no name
    pending;
  \<^item> a function call appends no line of its own: it sets the pending name when it
    carries one and adds its string arguments to the buffer, and both are shown in the
    call line that the next result appends; a call that no result follows is shown
    nowhere;
  \<^item> a text item or any other item changes neither the lines, the name nor the buffer.
  So the result line of every streamed result is in the block, and the lines are the
  same when every \<open>StreamingTextContent\<close> item is removed from the stream.
\<close>

theorem response_text_is_streamed_text:
  "(let content_items = stream_items (invoke_stream user_input (notebook.thread g));
        acc = process_items js content_items fresh
    in full_response acc = texts content_items
       \<and> function_calls acc
           = function_calls
               (process_items js (filter (\<lambda>i. \<not> is_streaming_text i) content_items) fresh)
       \<and> output_area (process_user_input js invoke_stream user_input g)
           = output_area g @
               [user_block user_input
                @ (if function_calls acc \<noteq> []
                   then ''<div style='margin-bottom:10px'><details><summary style='cursor:pointer; font-weight:bold; color:#0066cc;'>Function Calls (click to expand)</summary><div style='margin:10px; padding:10px; background-color:#f8f8f8; border:1px solid #ddd; border-radius:4px; white-space:pre-wrap; font-size:14px; color:#333;'>''
                        @ join ''\<newline>'' (function_calls acc) @ ''</div></details></div>''
                   else [])
                @ ''<div style='margin-bottom:20px'><div style='font-weight:bold'>''
                @ notebook.agent_name g
                @ '':</div><div style='margin-left:20px; white-space:pre-wrap'>''
                @ concat (texts content_items)
                @ ''</div></div><hr>''])
   \<and> (let responses = invoke_stream user_input (main_state.thread s);
          acc = process_items js (stream_items responses) fresh
      in displayed (main_turn js invoke_stream user_input s)
           = displayed s @
               [user_block user_input
                @ (if function_calls acc \<noteq> []
                   then ''<div style='margin-bottom:10px'><details><summary style='cursor:pointer; font-weight:bold; color:#0066cc;'>Function Calls (click to expand)</summary><div style='margin:10px; padding:10px; background-color:#f8f8f8; border:1px solid #ddd; border-radius:4px; white-space:pre-wrap; font-size:14px; color:#333;'>''
                        @ join ''\<newline>'' (function_calls acc) @ ''</div></details></div>''
                   else [])
                @ ''<div style='margin-bottom:20px'><div style='font-weight:bold'>''
                @ or_default (if responses = [] then None else response_name (last responses))
                    ''Assistant''
                @ '':</div><div style='margin-left:20px; white-space:pre-wrap'>''
                @ concat (texts (stream_items responses))
                @ ''</div></div><hr>''])
   \<and> texts [] = []
   \<and> texts (xs @ [StreamingTextContent (Some t)]) = (if t \<noteq> [] then texts xs @ [t] else texts xs)
   \<and> texts (xs @ [StreamingTextContent None]) = texts xs
   \<and> texts (xs @ [FunctionCallContent n a]) = texts xs
   \<and> texts (xs @ [FunctionResultContent r]) = texts xs
   \<and> texts (xs @ [OtherContent]) = texts xs
   \<and> join sep [] = []
   \<and> join sep [l] = l
   \<and> join sep (l # l' # ls) = l @ sep @ join sep (l' # ls)
   \<and> function_calls (process_items js [] fresh) = []
   \<and> current_function_name (process_items js [] fresh) = None
   \<and> argument_buffer (process_items js [] fresh) = []
   \<and> function_calls (process_items js (xs @ [FunctionResultContent r]) fresh)
       = function_calls (process_items js xs fresh)
         @ (case current_function_name (process_items js xs fresh) of
              None \<Rightarrow> []
            | Some name \<Rightarrow>
                [''Calling function: '' @ name @ ''(''
                   @ format_args js (argument_buffer (process_items js xs fresh)) @ '')''])
         @ [''\<newline>Function Result:\<newline>\<newline>'' @ r]
   \<and> current_function_name (process_items js (xs @ [FunctionResultContent r]) fresh) = None
   \<and> argument_buffer (process_items js (xs @ [FunctionResultContent r]) fresh)
       = (case current_function_name (process_items js xs fresh) of
            None \<Rightarrow> argument_buffer (process_items js xs fresh)
          | Some name \<Rightarrow> [])
   \<and> function_calls (process_items js (xs @ [FunctionCallContent n a]) fresh)
       = function_calls (process_items js xs fresh)
   \<and> current_function_name (process_items js (xs @ [FunctionCallContent n a]) fresh)
       = (if truthy n then n else current_function_name (process_items js xs fresh))
   \<and> argument_buffer (process_items js (xs @ [FunctionCallContent n a]) fresh)
       = argument_buffer (process_items js xs fresh)
         @ concat (str_arguments [FunctionCallContent n a])
   \<and> str_arguments [FunctionCallContent n (StrArguments b)] = [b]
   \<and> str_arguments [FunctionCallContent n (MappingArguments m)] = []
   \<and> str_arguments [FunctionCallContent n NoArguments] = []
   \<and> function_calls (process_items js (xs @ [StreamingTextContent chunk]) fresh)
       = function_calls (process_items js xs fresh)
   \<and> current_function_name (process_items js (xs @ [StreamingTextContent chunk]) fresh)
       = current_function_name (process_items js xs fresh)
   \<and> argument_buffer (process_items js (xs @ [StreamingTextContent chunk]) fresh)
       = argument_buffer (process_items js xs fresh)
   \<and> function_calls (process_items js (xs @ [OtherContent]) fresh)
       = function_calls (process_items js xs fresh)
   \<and> current_function_name (process_items js (xs @ [OtherContent]) fresh)
       = current_function_name (process_items js xs fresh)
   \<and> argument_buffer (process_items js (xs @ [OtherContent]) fresh)
       = argument_buffer (process_items js xs fresh)
   \<and> ((\<forall>i\<in>set post. \<not> is_result i) \<longrightarrow>
        function_calls (process_items js (xs @ post) fresh)
        = function_calls (process_items js xs fresh))
   \<and> (FunctionResultContent r \<in> set xs \<longrightarrow>
        (''\<newline>Function Result:\<newline>\<newline>'' @ r)
        \<in> set (function_calls (process_items js xs fresh)))"
proof -
  have fr: "full_response (process_items js ys fresh) = texts ys" for ys
    by (simp add: full_response_process_items fresh_def)
  have c1: "full_response
              (process_items js (stream_items (invoke_stream user_input (notebook.thread g))) fresh)
            = texts (stream_items (invoke_stream user_input (notebook.thread g)))"
    by (rule fr)
  have c2: "function_calls
              (process_items js (stream_items (invoke_stream user_input (notebook.thread g))) fresh)
            = function_calls
                (process_items js
                   (filter (\<lambda>i. \<not> is_streaming_text i)
                      (stream_items (invoke_stream user_input (notebook.thread g)))) fresh)"
    using calls_view_without_text
            [of fresh fresh js "stream_items (invoke_stream user_input (notebook.thread g))"]
    by simp
  have c3: "output_area (process_user_input js invoke_stream user_input g)
           = output_area g @
               [user_block user_input
                @ (if function_calls (process_items js (stream_items (invoke_stream user_input (notebook.thread g))) fresh) \<noteq> []
                   then ''<div style='margin-bottom:10px'><details><summary style='cursor:pointer; font-weight:bold; color:#0066cc;'>Function Calls (click to expand)</summary><div style='margin:10px; padding:10px; background-color:#f8f8f8; border:1px solid #ddd; border-radius:4px; white-space:pre-wrap; font-size:14px; color:#333;'>''
                        @ join ''\<newline>'' (function_calls (process_items js (stream_items (invoke_stream user_input (notebook.thread g))) fresh)) @ ''</div></details></div>''
                   else [])
                @ ''<div style='margin-bottom:20px'><div style='font-weight:bold'>''
                @ notebook.agent_name g
                @ '':</div><div style='margin-left:20px; white-space:pre-wrap'>''
                @ concat (texts (stream_items (invoke_stream user_input (notebook.thread g))))
                @ ''</div></div><hr>'']"
    by (simp add: process_user_input_eq turn_html_def fr agent_block_def calls_block_text)
  have c4: "displayed (main_turn js invoke_stream user_input s)
           = displayed s @
               [user_block user_input
                @ (if function_calls (process_items js (stream_items (invoke_stream user_input (main_state.thread s))) fresh) \<noteq> []
                   then ''<div style='margin-bottom:10px'><details><summary style='cursor:pointer; font-weight:bold; color:#0066cc;'>Function Calls (click to expand)</summary><div style='margin:10px; padding:10px; background-color:#f8f8f8; border:1px solid #ddd; border-radius:4px; white-space:pre-wrap; font-size:14px; color:#333;'>''
                        @ join ''\<newline>'' (function_calls (process_items js (stream_items (invoke_stream user_input (main_state.thread s))) fresh)) @ ''</div></details></div>''
                   else [])
                @ ''<div style='margin-bottom:20px'><div style='font-weight:bold'>''
                @ or_default (if invoke_stream user_input (main_state.thread s) = [] then None
                              else response_name (last (invoke_stream user_input (main_state.thread s))))
                    ''Assistant''
                @ '':</div><div style='margin-left:20px; white-space:pre-wrap'>''
                @ concat (texts (stream_items (invoke_stream user_input (main_state.thread s))))
                @ ''</div></div><hr>'']"
    by (simp add: displayed_main_turn turn_html_def fr agent_block_def calls_block_text)
  have tx: "texts [] = []"
    "texts (xs @ [StreamingTextContent (Some t)]) = (if t \<noteq> [] then texts xs @ [t] else texts xs)"
    "texts (xs @ [StreamingTextContent None]) = texts xs"
    "texts (xs @ [FunctionCallContent n a]) = texts xs"
    "texts (xs @ [FunctionResultContent r]) = texts xs"
    "texts (xs @ [OtherContent]) = texts xs"
    by (simp_all add: texts_def)
  have jn: "join sep [] = []" "join sep [l] = l"
    "join sep (l # l' # ls) = l @ sep @ join sep (l' # ls)"
    by simp_all
  have start: "function_calls (process_items js [] fresh) = []"
    "current_function_name (process_items js [] fresh) = None"
    "argument_buffer (process_items js [] fresh) = []"
    by (simp_all add: fresh_def)
  have sa: "str_arguments [FunctionCallContent n (StrArguments b)] = [b]"
    "str_arguments [FunctionCallContent n (MappingArguments m)] = []"
    "str_arguments [FunctionCallContent n NoArguments] = []"
    by (simp_all add: str_arguments_def)
  have quiet: "(\<forall>i\<in>set post. \<not> is_result i) \<longrightarrow>
        function_calls (process_items js (xs @ post) fresh)
        = function_calls (process_items js xs fresh)"
    using no_result_segment [of post js "process_items js xs fresh"]
    by (simp add: process_items_append)
  have shown: "FunctionResultContent r \<in> set xs \<longrightarrow>
        (''\<newline>Function Result:\<newline>\<newline>'' @ r)
        \<in> set (function_calls (process_items js xs fresh))"
    using result_line_collected by blast
  note res = result_event [of js xs r]
  note call = call_event [of js xs n a fresh]
  note tev = text_event [of js xs chunk fresh]
  note oth = other_event [of js xs fresh]
  show ?thesis
    unfolding Let_def
    using c1 c2 c3 c4 tx jn start res call sa tev oth quiet shown
    by (intro conjI) blast+
qed

theorem response_text_is_streamed_text_witness:
  "output_area (process_user_input example_json example_agent ''hi'' example_notebook)
   = [''intro'',
      ''<div style='margin-bottom:10px'><div style='font-weight:bold'>User:</div><div style='margin-left:20px'>hi</div></div><div style='margin-bottom:10px'><details><summary style='cursor:pointer; font-weight:bold; color:#0066cc;'>Function Calls (click to expand)</summary><div style='margin:10px; padding:10px; background-color:#f8f8f8; border:1px solid #ddd; border-radius:4px; white-space:pre-wrap; font-size:14px; color:#333;'>\<newline>Function Result:\<newline>\<newline>early\<newline>Calling function: get_availability({})\<newline>\<newline>Function Result:\<newline>\<newline>ok</div></details></div><div style='margin-bottom:20px'><div style='font-weight:bold'>TravelAgent:</div><div style='margin-left:20px; white-space:pre-wrap'>Hi there</div></div><hr>'']
   \<and> texts (stream_items (example_agent ''hi'' None)) = [''Hi'', '' there'']
   \<and> ''\<newline>Function Result:\<newline>\<newline>ok''
       \<in> set (function_calls
                (process_items example_json (stream_items (example_agent ''hi'' None)) fresh))
   \<and> function_calls
       (process_items example_json
          ([FunctionCallContent (Some ''get_availability'') (StrArguments ''{}'')]
           @ [FunctionResultContent ''ok'']) fresh)
     = [''Calling function: get_availability({})'',
        ''\<newline>Function Result:\<newline>\<newline>ok'']"
proof -
  let ?items = "stream_items (example_agent ''hi'' (notebook.thread example_notebook))"
  let ?acc = "process_items example_json ?items fresh"
  let ?call = "FunctionCallContent (Some ''get_availability'') (StrArguments ''{}'')"
  note inst = response_text_is_streamed_text
                [where invoke_stream = example_agent and user_input = "''hi''"
                   and g = example_notebook and js = example_json
                   and xs = "stream_items (example_agent ''hi'' None)" and r = "''ok''",
                 unfolded Let_def]
  note step = response_text_is_streamed_text
                [where js = example_json and xs = "[?call]" and r = "''ok''",
                 unfolded Let_def]
  have t: "notebook.thread example_notebook = None"
    by (simp add: example_notebook_def)
  have tx: "full_response ?acc = texts ?items"
    using inst by blast
  have out: "output_area (process_user_input example_json example_agent ''hi'' example_notebook)
           = output_area example_notebook @
               [user_block ''hi''
                @ (if function_calls ?acc \<noteq> []
                   then ''<div style='margin-bottom:10px'><details><summary style='cursor:pointer; font-weight:bold; color:#0066cc;'>Function Calls (click to expand)</summary><div style='margin:10px; padding:10px; background-color:#f8f8f8; border:1px solid #ddd; border-radius:4px; white-space:pre-wrap; font-size:14px; color:#333;'>''
                        @ join ''\<newline>'' (function_calls ?acc) @ ''</div></details></div>''
                   else [])
                @ ''<div style='margin-bottom:20px'><div style='font-weight:bold'>''
                @ notebook.agent_name example_notebook
                @ '':</div><div style='margin-left:20px; white-space:pre-wrap'>''
                @ concat (texts ?items)
                @ ''</div></div><hr>'']"
    using inst by blast
  have tx': "texts (stream_items (example_agent ''hi'' None)) = [''Hi'', '' there'']"
    using tx unfolding t by (simp add: example_turn)
  have present: "FunctionResultContent ''ok'' \<in> set (stream_items (example_agent ''hi'' None))"
    by (simp add: stream_items_def example_agent_def)
  have member: "''\<newline>Function Result:\<newline>\<newline>ok''
       \<in> set (function_calls
                (process_items example_json (stream_items (example_agent ''hi'' None)) fresh))"
    using inst present by fastforce
  have one: "function_calls (process_items example_json ([?call] @ [FunctionResultContent ''ok'']) fresh)
       = function_calls (process_items example_json [?call] fresh)
         @ (case current_function_name (process_items example_json [?call] fresh) of
              None \<Rightarrow> []
            | Some name \<Rightarrow>
                [''Calling function: '' @ name @ ''(''
                   @ format_args example_json
                       (argument_buffer (process_items example_json [?call] fresh)) @ '')''])
         @ [''\<newline>Function Result:\<newline>\<newline>'' @ ''ok'']"
    using step by blast
  have args: "format_args example_json ''{}'' = ''{}''"
    by (simp add: format_args_def strip_def isspace_def example_json_def)
  have pair: "function_calls
       (process_items example_json ([?call] @ [FunctionResultContent ''ok'']) fresh)
     = [''Calling function: get_availability({})'',
        ''\<newline>Function Result:\<newline>\<newline>ok'']"
    unfolding one by (simp add: fresh_def args)
  have block: "output_area (process_user_input example_json example_agent ''hi'' example_notebook)
   = [''intro'',
      ''<div style='margin-bottom:10px'><div style='font-weight:bold'>User:</div><div style='margin-left:20px'>hi</div></div><div style='margin-bottom:10px'><details><summary style='cursor:pointer; font-weight:bold; color:#0066cc;'>Function Calls (click to expand)</summary><div style='margin:10px; padding:10px; background-color:#f8f8f8; border:1px solid #ddd; border-radius:4px; white-space:pre-wrap; font-size:14px; color:#333;'>\<newline>Function Result:\<newline>\<newline>early\<newline>Calling function: get_availability({})\<newline>\<newline>Function Result:\<newline>\<newline>ok</div></details></div><div style='margin-bottom:20px'><div style='font-weight:bold'>TravelAgent:</div><div style='margin-left:20px; white-space:pre-wrap'>Hi there</div></div><hr>'']"
    unfolding out t tx' by (simp add: example_turn example_notebook_def user_block_def)
  show ?thesis
    using block tx' member pair by blast
qed

section \<open>Submitting input\<close>

text \<open>
  C10. Submitting a value that is empty after \<open>strip\<close> changes nothing: no task is
  created, the output area keeps its contents and the input box keeps its value.
\<close>

theorem on_submit_blank_no_action:
  "strip change_value = [] \<Longrightarrow> on_submit change_value g = g"
  by (simp add: on_submit_def)

theorem on_submit_blank_no_action_witness:
  "strip ''  '' = []
   \<and> on_submit ''  '' \<lparr>thread = Some (3::nat), agent_name = ''TravelAgent'', output_area = [''x''],
                       input_box_value = ''  '', tasks = []\<rparr>
     = \<lparr>thread = Some 3, agent_name = ''TravelAgent'', output_area = [''x''],
        input_box_value = ''  '', tasks = []\<rparr>"
proof -
  have blank: "strip ''  '' = []" by (simp add: strip_def isspace_def)
  show ?thesis using blank on_submit_blank_no_action [OF blank] by simp
qed

text \<open>
  A submission that is not blank appends one task for \<open>process_user_input\<close> with the
  submitted text and clears the input box; the tasks already there are not looked at.
\<close>

lemma on_submit_creates_task:
  "strip change_value \<noteq> [] \<Longrightarrow>
   on_submit change_value g =
     g\<lparr>tasks := tasks g @ [Process_user_input change_value], input_box_value := []\<rparr>"
  by (simp add: on_submit_def)

end
